theory Spec2Isabelle
  imports Complex_Main "HOL-Library.Option_ord" "HOL-Library.Sublist"
    "HOL-Library.Char_ord" "HOL-Library.List_Lexorder"
begin

section \<open>Values: JSON documents, Python exceptions, SQLite values\<close>

text \<open>
  The scripts of this repository are Python programs that drive an SQLite database.
  What \<^verbatim>\<open>json.loads\<close> returns is a value of type \<open>json\<close>: an object is the list of the
  items of the Python dict (keys distinct), an integer literal is a Python int (unbounded),
  any other number a Python float. Floats are taken as real numbers throughout
  (finite, with exact arithmetic).
\<close>

datatype json =
    JNull
  | JBool bool
  | JInt int
  | JFloat real
  | JStr string
  | JArr "json list"
  | JObj "(string \<times> json) list"

text \<open>The exceptions the scripts can meet. \<open>BindError\<close> is what \<^verbatim>\<open>sqlite3\<close> raises for a
  parameter of unsupported type (a list or a dict); \<open>IntegrityError\<close> covers a failed
  NOT NULL constraint and a datatype mismatch on the primary key; \<open>DatabaseFull\<close> is the
  OperationalError of a table that has run out of row ids. All of them are subclasses of
  \<^verbatim>\<open>Exception\<close>.\<close>

datatype py_exn =
    AttributeError
  | TypeError
  | ValueError
  | OverflowError
  | JSONDecodeError
  | BindError
  | IntegrityError
  | DatabaseFull
  | ProgrammingError

definition bind_exn :: "'e + 'a \<Rightarrow> ('a \<Rightarrow> 'e + 'b) \<Rightarrow> 'e + 'b" where
  "bind_exn m f = (case m of Inl e \<Rightarrow> Inl e | Inr x \<Rightarrow> f x)"

text \<open>\<^verbatim>\<open>x.get(key, default)\<close>: defined on a dict only; on any other value the attribute
  lookup raises AttributeError.\<close>

definition py_get :: "json \<Rightarrow> string \<Rightarrow> json \<Rightarrow> py_exn + json" where
  "py_get x key dflt =
     (case x of
        JObj items \<Rightarrow> Inr (case map_of items key of None \<Rightarrow> dflt | Some v \<Rightarrow> v)
      | _ \<Rightarrow> Inl AttributeError)"

text \<open>Python truthiness, as used by \<^verbatim>\<open>1 if props.get('IsShared') else 0\<close>.\<close>

fun truthy :: "json \<Rightarrow> bool" where
  "truthy JNull = False"
| "truthy (JBool b) = b"
| "truthy (JInt n) = (n \<noteq> 0)"
| "truthy (JFloat x) = (x \<noteq> 0)"
| "truthy (JStr s) = (s \<noteq> [])"
| "truthy (JArr xs) = (xs \<noteq> [])"
| "truthy (JObj items) = (items \<noteq> [])"

datatype sqlval = SNull | SInt int | SReal real | SText string

text \<open>How \<^verbatim>\<open>sqlite3\<close> adapts a Python value bound to a \<^verbatim>\<open>?\<close>: None is NULL, a bool is
  the integer 0 or 1, an int must fit in 64 bits (signed), and a list or a dict is refused.\<close>

fun bind_param :: "json \<Rightarrow> py_exn + sqlval" where
  "bind_param JNull = Inr SNull"
| "bind_param (JBool b) = Inr (SInt (if b then 1 else 0))"
| "bind_param (JInt n) =
     (if - (2 ^ 63) \<le> n \<and> n < 2 ^ 63 then Inr (SInt n) else Inl OverflowError)"
| "bind_param (JFloat x) = Inr (SReal x)"
| "bind_param (JStr s) = Inr (SText s)"
| "bind_param (JArr xs) = Inl BindError"
| "bind_param (JObj items) = Inl BindError"

text \<open>
  What the scripts call but do not define: the clock behind \<^verbatim>\<open>strftime('%s', 'now')\<close>
  (\<open>clock eng i\<close> is the time in seconds at which element \<open>i\<close> of the feed is processed),
  \<^verbatim>\<open>json.dumps\<close>, and four pieces of the SQLite engine: the search for an unused row id
  once the largest one is taken (none found: the insert fails), the value of a text that is
  a well-formed number, the text of a number, and the number a text is cast to in
  arithmetic. They are parameters of the model; no theorem below assumes anything
  about them.
\<close>

record engine =
  clock :: "nat \<Rightarrow> int"
  dumps :: "json \<Rightarrow> string"
  pick_rowid :: "int list \<Rightarrow> int option"
  numeric_text :: "string \<Rightarrow> real option"
  int_text :: "int \<Rightarrow> string"
  real_text :: "real \<Rightarrow> string"
  cast_num :: "string \<Rightarrow> real"

section \<open>The spawn store: table \<^verbatim>\<open>nexus_spawns\<close>\<close>

text \<open>
  One row of \<^verbatim>\<open>nexus_spawns\<close> (import-nexus-spawns.py, CREATE TABLE). The columns keep
  their names, prefixed by \<open>ns_\<close>. \<open>id INTEGER PRIMARY KEY\<close> is the row id, an integer;
  \<open>name\<close> and \<open>planet\<close> are \<open>TEXT NOT NULL\<close>, so they hold text; the other columns
  hold whatever SQLite stores there after the column's affinity has been applied.
  A table is the list of its rows in row-id order, which is the order of a table scan.
\<close>

record spawn_row =
  ns_id :: int
  ns_name :: string
  ns_planet :: string
  ns_type :: sqlval
  ns_shape :: sqlval
  ns_center_lon :: sqlval
  ns_center_lat :: sqlval
  ns_density :: sqlval
  ns_is_shared :: sqlval
  ns_is_event :: sqlval
  ns_notes :: sqlval
  ns_data_json :: sqlval
  ns_created_at :: sqlval


text \<open>Column affinity. TEXT turns a number into its text; REAL turns an integer, or a
  text that is a well-formed number, into a real and leaves any other text as it is.\<close>

fun text_affinity :: "engine \<Rightarrow> sqlval \<Rightarrow> sqlval" where
  "text_affinity eng SNull = SNull"
| "text_affinity eng (SInt n) = SText (int_text eng n)"
| "text_affinity eng (SReal x) = SText (real_text eng x)"
| "text_affinity eng (SText s) = SText s"

fun real_affinity :: "engine \<Rightarrow> sqlval \<Rightarrow> sqlval" where
  "real_affinity eng SNull = SNull"
| "real_affinity eng (SInt n) = SReal (of_int n)"
| "real_affinity eng (SReal x) = SReal x"
| "real_affinity eng (SText s) =
     (case numeric_text eng s of None \<Rightarrow> SText s | Some x \<Rightarrow> SReal x)"

text \<open>The value given for an INTEGER PRIMARY KEY must be an integer, or convert to one
  without loss; anything else is a datatype mismatch. NULL asks for a fresh row id: 1 in
  an empty table, else one more than the largest in use; when the largest possible row id
  is in use the engine looks for an unused one.\<close>

definition int_of_real :: "real \<Rightarrow> py_exn + int" where
  "int_of_real x =
     (if x = of_int \<lfloor>x\<rfloor> \<and> - (2 ^ 63) \<le> \<lfloor>x\<rfloor> \<and> \<lfloor>x\<rfloor> < 2 ^ 63
      then Inr \<lfloor>x\<rfloor> else Inl IntegrityError)"

fun max_id :: "int list \<Rightarrow> int" where
  "max_id [] = 0"
| "max_id [k] = k"
| "max_id (k # ks) = max k (max_id ks)"

definition new_rowid :: "engine \<Rightarrow> spawn_row list \<Rightarrow> py_exn + int" where
  "new_rowid eng rows =
     (let ids = map ns_id rows in
      if ids = [] then Inr 1
      else if max_id ids < 2 ^ 63 - 1 then Inr (max_id ids + 1)
      else (case pick_rowid eng ids of
              None \<Rightarrow> Inl DatabaseFull
            | Some k \<Rightarrow>
                if k \<notin> set ids \<and> 0 < k \<and> k < 2 ^ 63 then Inr k else Inl DatabaseFull))"

fun rowid_of :: "engine \<Rightarrow> sqlval \<Rightarrow> spawn_row list \<Rightarrow> py_exn + int" where
  "rowid_of eng SNull rows = new_rowid eng rows"
| "rowid_of eng (SInt n) rows = Inr n"
| "rowid_of eng (SReal x) rows = int_of_real x"
| "rowid_of eng (SText s) rows =
     (case numeric_text eng s of None \<Rightarrow> Inl IntegrityError | Some x \<Rightarrow> int_of_real x)"

text \<open>REPLACE conflict resolution on the primary key: the row that holds the key is
  deleted, then the new row is inserted.\<close>

definition upsert :: "spawn_row \<Rightarrow> spawn_row list \<Rightarrow> spawn_row list" where
  "upsert r rows = insort_key ns_id r (filter (\<lambda>x. ns_id x \<noteq> ns_id r) rows)"

text \<open>The twelve values bound to the \<^verbatim>\<open>?\<close> of the INSERT OR REPLACE statement.\<close>

record sql_args =
  q_id :: sqlval
  q_name :: sqlval
  q_planet :: sqlval
  q_type :: sqlval
  q_shape :: sqlval
  q_center_lon :: sqlval
  q_center_lat :: sqlval
  q_density :: sqlval
  q_is_shared :: sqlval
  q_is_event :: sqlval
  q_notes :: sqlval
  q_data_json :: sqlval

text \<open>
  \<^verbatim>\<open>INSERT OR REPLACE INTO nexus_spawns (id, ..., data_json) VALUES (?, ..., ?)\<close> run at
  time \<open>now\<close>. A NULL in \<open>name\<close> or \<open>planet\<close> (NOT NULL, no default) aborts the
  statement and leaves the table as it was. \<open>created_at\<close> is not among the columns
  listed, so the new row takes the column's default, the time of the statement.
\<close>

definition text_not_null :: "engine \<Rightarrow> sqlval \<Rightarrow> py_exn + string" where
  "text_not_null eng v =
     (case text_affinity eng v of SText s \<Rightarrow> Inr s | _ \<Rightarrow> Inl IntegrityError)"

definition insert_or_replace ::
  "engine \<Rightarrow> int \<Rightarrow> sql_args \<Rightarrow> spawn_row list \<Rightarrow> py_exn + spawn_row list" where
  "insert_or_replace eng now q rows =
     bind_exn (rowid_of eng (q_id q) rows) (\<lambda>k.
     bind_exn (text_not_null eng (q_name q)) (\<lambda>nm.
     bind_exn (text_not_null eng (q_planet q)) (\<lambda>pl.
       Inr (upsert
             \<lparr> ns_id = k, ns_name = nm, ns_planet = pl,
               ns_type = text_affinity eng (q_type q),
               ns_shape = text_affinity eng (q_shape q),
               ns_center_lon = real_affinity eng (q_center_lon q),
               ns_center_lat = real_affinity eng (q_center_lat q),
               ns_density = text_affinity eng (q_density q),
               ns_is_shared = q_is_shared q,
               ns_is_event = q_is_event q,
               ns_notes = text_affinity eng (q_notes q),
               ns_data_json = text_affinity eng (q_data_json q),
               ns_created_at = SInt now \<rparr> rows))))"

section \<open>The Synchronizer: the insert loop of import-nexus-spawns.py\<close>

text \<open>The body of the \<^verbatim>\<open>try\<close>, up to the call of \<^verbatim>\<open>cursor.execute\<close>: the four
  assignments, then the tuple of arguments, evaluated left to right, then the binding of
  each argument.\<close>

definition prepare :: "engine \<Rightarrow> json \<Rightarrow> py_exn + sql_args" where
  "prepare eng spawn =
     bind_exn (py_get spawn ''Properties'' (JObj [])) (\<lambda>props.
     bind_exn (py_get spawn ''Planet'' (JObj [])) (\<lambda>planet_data.
     bind_exn (py_get planet_data ''Name'' (JStr ''Unknown'')) (\<lambda>planet.
     bind_exn (py_get props ''Coordinates'' (JObj [])) (\<lambda>coords.
     bind_exn (py_get spawn ''Id'' JNull) (\<lambda>a_id.
     bind_exn (py_get spawn ''Name'' (JStr ''Unknown Spawn'')) (\<lambda>a_name.
     bind_exn (py_get props ''Type'' JNull) (\<lambda>a_type.
     bind_exn (py_get props ''Shape'' JNull) (\<lambda>a_shape.
     bind_exn (py_get coords ''Longitude'' JNull) (\<lambda>a_lon.
     bind_exn (py_get coords ''Latitude'' JNull) (\<lambda>a_lat.
     bind_exn (py_get props ''Density'' JNull) (\<lambda>a_density.
     bind_exn (py_get props ''IsShared'' JNull) (\<lambda>a_shared.
     bind_exn (py_get props ''IsEvent'' JNull) (\<lambda>a_event.
     bind_exn (py_get props ''Notes'' JNull) (\<lambda>a_notes.
     bind_exn (bind_param a_id) (\<lambda>b_id.
     bind_exn (bind_param a_name) (\<lambda>b_name.
     bind_exn (bind_param planet) (\<lambda>b_planet.
     bind_exn (bind_param a_type) (\<lambda>b_type.
     bind_exn (bind_param a_shape) (\<lambda>b_shape.
     bind_exn (bind_param a_lon) (\<lambda>b_lon.
     bind_exn (bind_param a_lat) (\<lambda>b_lat.
     bind_exn (bind_param a_density) (\<lambda>b_density.
     bind_exn (bind_param a_notes) (\<lambda>b_notes.
       Inr \<lparr> q_id = b_id, q_name = b_name, q_planet = b_planet, q_type = b_type,
             q_shape = b_shape, q_center_lon = b_lon, q_center_lat = b_lat,
             q_density = b_density,
             q_is_shared = SInt (if truthy a_shared then 1 else 0),
             q_is_event = SInt (if truthy a_event then 1 else 0),
             q_notes = b_notes,
             q_data_json = SText (dumps eng spawn) \<rparr>)))))))))))))))))))))))"

definition try_insert ::
  "engine \<Rightarrow> int \<Rightarrow> json \<Rightarrow> spawn_row list \<Rightarrow> py_exn + spawn_row list" where
  "try_insert eng now spawn rows =
     bind_exn (prepare eng spawn) (\<lambda>q. insert_or_replace eng now q rows)"

text \<open>
  The loop \<^verbatim>\<open>for spawn in spawns\<close>, on the state (table, inserted, skipped); \<open>i\<close> is the
  position of the element in the feed. When the \<^verbatim>\<open>try\<close> raises, the handler prints
  \<^verbatim>\<open>spawn.get("Id")\<close> before it counts the record as skipped: that call is made outside
  any \<^verbatim>\<open>try\<close>, so when it raises the exception leaves the loop (\<open>Inl\<close>).
\<close>

fun sync_loop ::
  "engine \<Rightarrow> nat \<Rightarrow> json list \<Rightarrow> spawn_row list \<times> nat \<times> nat
     \<Rightarrow> py_exn + spawn_row list \<times> nat \<times> nat" where
  "sync_loop eng i [] st = Inr st"
| "sync_loop eng i (spawn # rest) (rows, inserted, skipped) =
     (case try_insert eng (clock eng i) spawn rows of
        Inr rows' \<Rightarrow> sync_loop eng (Suc i) rest (rows', inserted + 1, skipped)
      | Inl e \<Rightarrow>
          (case py_get spawn ''Id'' JNull of
             Inl e' \<Rightarrow> Inl e'
           | Inr v \<Rightarrow> sync_loop eng (Suc i) rest (rows, inserted, skipped + 1)))"

section \<open>The proximity queries\<close>

text \<open>
  An operand of SQL arithmetic: NULL stays NULL (\<open>None\<close>), a text is cast to a number.
  \<^verbatim>\<open>ROUND(x)\<close> rounds to the nearest whole number, halves away from zero.
\<close>

fun sql_num :: "engine \<Rightarrow> sqlval \<Rightarrow> real option" where
  "sql_num eng SNull = None"
| "sql_num eng (SInt n) = Some (of_int n)"
| "sql_num eng (SReal x) = Some x"
| "sql_num eng (SText s) = Some (cast_num eng s)"

definition sql_round :: "real \<Rightarrow> real" where
  "sql_round x = (if 0 \<le> x then of_int \<lfloor>x + 1 / 2\<rfloor> else - of_int \<lfloor>- x + 1 / 2\<rfloor>)"

text \<open>The full-precision planar distance, and the result column
  \<^verbatim>\<open>ROUND(SQRT((center_lon - lon0) * (center_lon - lon0) + (center_lat - lat0) * (center_lat - lat0))) as distance\<close>,
  which is NULL when a coordinate is NULL.\<close>

definition euclid :: "real \<Rightarrow> real \<Rightarrow> real \<Rightarrow> real \<Rightarrow> real" where
  "euclid lon0 lat0 lon lat =
     sqrt ((lon - lon0) * (lon - lon0) + (lat - lat0) * (lat - lat0))"

definition distance :: "engine \<Rightarrow> real \<Rightarrow> real \<Rightarrow> spawn_row \<Rightarrow> real option" where
  "distance eng lon0 lat0 r =
     (case (sql_num eng (ns_center_lon r), sql_num eng (ns_center_lat r)) of
        (Some lon, Some lat) \<Rightarrow> Some (sql_round (euclid lon0 lat0 lon lat))
      | _ \<Rightarrow> None)"

text \<open>
  \<^verbatim>\<open>SELECT ..., ROUND(SQRT(...)) as distance FROM ... ORDER BY distance LIMIT n\<close> over the
  rows that passed the WHERE clause. \<^verbatim>\<open>ORDER BY distance\<close> names the result column, so
  the sort key is the rounded value; NULL sorts first; rows with equal keys stay in scan
  order. A result row is the table row with its \<open>distance\<close> (the query selects some of the
  row's columns).
\<close>

definition order_by_distance_limit ::
  "engine \<Rightarrow> real \<Rightarrow> real \<Rightarrow> nat \<Rightarrow> spawn_row list \<Rightarrow> (spawn_row \<times> real option) list" where
  "order_by_distance_limit eng lon0 lat0 n rows =
     take n (sort_key snd (map (\<lambda>r. (r, distance eng lon0 lat0 r)) rows))"

text \<open>The query of import-nexus-spawns.py, with its constants as parameters:
  \<^verbatim>\<open>WHERE planet = p AND center_lon IS NOT NULL AND center_lat IS NOT NULL\<close>.\<close>

definition nearest ::
  "engine \<Rightarrow> string \<Rightarrow> real \<Rightarrow> real \<Rightarrow> nat \<Rightarrow> spawn_row list \<Rightarrow> (spawn_row \<times> real option) list" where
  "nearest eng p lon0 lat0 n rows =
     order_by_distance_limit eng lon0 lat0 n
       (filter (\<lambda>r. ns_planet r = p \<and> ns_center_lon r \<noteq> SNull \<and> ns_center_lat r \<noteq> SNull) rows)"

definition nearby_spawns :: "engine \<Rightarrow> spawn_row list \<Rightarrow> (spawn_row \<times> real option) list" where
  "nearby_spawns eng rows = nearest eng ''Calypso'' 79085 67537 10 rows"

text \<open>\<^verbatim>\<open>name LIKE '%Foul%'\<close>: the name contains the pattern, upper and lower case ASCII
  letters taken as equal.\<close>

definition ascii_lower :: "char \<Rightarrow> char" where
  "ascii_lower c =
     (let n = (of_char c :: nat) in if 65 \<le> n \<and> n \<le> 90 then char_of (n + 32) else c)"

definition like_contains :: "string \<Rightarrow> string \<Rightarrow> bool" where
  "like_contains pat s = sublist (map ascii_lower pat) (map ascii_lower s)"

text \<open>The query of test-foul-parsing.py: no test for NULL coordinates, LIMIT 5.\<close>

definition closest_foul :: "engine \<Rightarrow> spawn_row list \<Rightarrow> (spawn_row \<times> real option) list" where
  "closest_foul eng rows =
     order_by_distance_limit eng 79085 67537 5
       (filter (\<lambda>r. ns_planet r = ''Calypso'' \<and> like_contains ''Foul'' (ns_name r)) rows)"

section \<open>The import script as a whole\<close>

text \<open>
  What the \<^verbatim>\<open>try\<close> around the download can see: \<^verbatim>\<open>urlopen\<close> raised, or the bytes
  received are not UTF-8 text that \<^verbatim>\<open>json.loads\<close> accepts, or a document was decoded.
\<close>

datatype fetched = FetchFailed | NotJson | Document json

text \<open>\<^verbatim>\<open>len(spawns)\<close> followed by \<^verbatim>\<open>for spawn in spawns\<close>: a list gives its elements,
  a dict its keys, a string its characters; None, a bool and a number have no length
  (TypeError, inside the \<^verbatim>\<open>try\<close>).\<close>

fun py_items :: "json \<Rightarrow> json list option" where
  "py_items (JArr xs) = Some xs"
| "py_items (JObj items) = Some (map (\<lambda>kv. JStr (fst kv)) items)"
| "py_items (JStr s) = Some (map (\<lambda>c. JStr [c]) s)"
| "py_items JNull = None"
| "py_items (JBool b) = None"
| "py_items (JInt n) = None"
| "py_items (JFloat x) = None"

datatype import_outcome =
    Exit1
  | Uncaught py_exn
  | Complete nat nat "(spawn_row \<times> real option) list"

text \<open>
  The script from the download to the last query. The database is the table
  \<^verbatim>\<open>nexus_spawns\<close>, \<open>None\<close> while it does not exist. \<^verbatim>\<open>exit(1)\<close> comes before
  \<^verbatim>\<open>sqlite3.connect\<close>. CREATE TABLE IF NOT EXISTS takes effect at once; the inserts
  belong to one transaction, committed after the loop, so an exception that leaves the
  loop leaves the rows as they were. \<open>Complete inserted skipped nearby\<close> carries the two
  counts printed and the rows of the last query. (The query for names like Foul that the
  script prints in between reads the table and changes nothing; it is left out.)
\<close>

definition run_import ::
  "engine \<Rightarrow> fetched \<Rightarrow> spawn_row list option \<Rightarrow> import_outcome \<times> spawn_row list option" where
  "run_import eng f db =
     (case f of
        FetchFailed \<Rightarrow> (Exit1, db)
      | NotJson \<Rightarrow> (Exit1, db)
      | Document doc \<Rightarrow>
          (case py_items doc of
             None \<Rightarrow> (Exit1, db)
           | Some spawns \<Rightarrow>
               (let rows = (case db of None \<Rightarrow> [] | Some rows \<Rightarrow> rows) in
                case sync_loop eng 0 spawns (rows, 0, 0) of
                  Inl e \<Rightarrow> (Uncaught e, Some rows)
                | Inr (rows', inserted, skipped) \<Rightarrow>
                    (Complete inserted skipped (nearby_spawns eng rows'), Some rows'))))"

text \<open>An engine for the closed examples below: the clock stands at \<open>t\<close>, and a stand-in
  for \<^verbatim>\<open>json.dumps\<close> gives the text \<^verbatim>\<open>{}\<close> for every record (no example looks at the
  payload column). None of the examples reaches one of the four conversions or the search
  for a row id.\<close>

definition engine_at :: "int \<Rightarrow> engine" where
  "engine_at t =
     \<lparr> clock = (\<lambda>i. t), dumps = (\<lambda>j. ''{}''), pick_rowid = (\<lambda>ids. None),
       numeric_text = (\<lambda>s. None), int_text = (\<lambda>n. ''0''), real_text = (\<lambda>x. ''0.0''),
       cast_num = (\<lambda>s. 0) \<rparr>"

section \<open>The HP matcher: analyze-hp-matches.py\<close>

text \<open>
  Modelled from the spec: the table \<^verbatim>\<open>mobs\<close> is created and filled outside the
  repository; the scripts only name its columns \<open>name\<close>, \<open>hp\<close>, \<open>maturity\<close> and
  \<open>planet\<close>. The specification gives a mob a name, an HP that is a positive number, a
  maturity and a planet, so a row holds two texts, a number and a text (fields prefixed by
  \<open>mob_\<close>).
\<close>

record mob_row =
  mob_name :: string
  mob_hp :: real
  mob_maturity :: string
  mob_planet :: string

text \<open>The query, with its three \<^verbatim>\<open>?\<close> as arguments:
  \<^verbatim>\<open>WHERE hp BETWEEN ? AND ? AND planet = 'Calypso' ORDER BY ABS(hp - ?) ASC LIMIT 5\<close>.
  BETWEEN includes both ends; rows with equal keys stay in scan order.\<close>

definition hp_where :: "real \<Rightarrow> real \<Rightarrow> mob_row list \<Rightarrow> mob_row list" where
  "hp_where lo hi mobs =
     filter (\<lambda>m. (lo \<le> mob_hp m \<and> mob_hp m \<le> hi) \<and> mob_planet m = ''Calypso'') mobs"

definition hp_query :: "real \<Rightarrow> real \<Rightarrow> real \<Rightarrow> mob_row list \<Rightarrow> mob_row list" where
  "hp_query lo hi hp mobs = take 5 (sort_key (\<lambda>m. \<bar>mob_hp m - hp\<bar>) (hp_where lo hi mobs))"

text \<open>The body of the loop for one observed value:
  \<^verbatim>\<open>min_hp = hp * 0.8\<close>, \<^verbatim>\<open>max_hp = hp * 1.2\<close>, then the query with
  \<^verbatim>\<open>(min_hp, max_hp, hp)\<close>.\<close>

definition hp_matches :: "int \<Rightarrow> mob_row list \<Rightarrow> mob_row list" where
  "hp_matches hp mobs =
     (let min_hp = of_int hp * 0.8; max_hp = of_int hp * 1.2
      in hp_query min_hp max_hp (of_int hp) mobs)"

definition test_hp_values :: "int list" where
  "test_hp_values =
     [58, 228, 135, 75, 161, 162, 200, 107, 155, 137, 453, 46, 121, 198, 56, 129, 122, 142]"

text \<open>\<^verbatim>\<open>for hp in sorted(set(test_hp_values))\<close>: each value with its matches.\<close>

definition hp_match_analysis :: "mob_row list \<Rightarrow> (int \<times> mob_row list) list" where
  "hp_match_analysis mobs = map (\<lambda>hp. (hp, hp_matches hp mobs)) (sort (remdups test_hp_values))"

section \<open>The session reader: read-session.py\<close>

text \<open>
  Modelled from the spec: the tables \<^verbatim>\<open>sessions\<close>, \<^verbatim>\<open>events\<close> and \<^verbatim>\<open>loadouts\<close> belong to
  the application and are created outside the repository; the script only names the
  columns it reads. The specification describes sessions keyed by id with a name, a loadout
  reference, a duration and a JSON-encoded stats blob, events keyed by session with a type
  tag and a JSON-encoded payload, and loadouts keyed by id with a JSON-encoded cost
  breakdown and manual-override flags. Ids, names, type tags and JSON texts are texts here,
  durations and start times integers; the columns that may be empty are options. The
  database also records the columns of the two tables that \<^verbatim>\<open>PRAGMA table_info\<close> lists
  (name and declared type).
\<close>

record session_row =
  ses_id :: string
  ses_name :: string
  ses_loadout_id :: "string option"
  ses_duration :: int
  ses_stats :: "string option"
  ses_start_time :: int

record event_row =
  ev_session_id :: string
  ev_type :: string
  ev_payload :: string

record loadout_row =
  lo_id :: string
  lo_name :: string
  lo_costs :: "string option"
  lo_use_manual_cost :: sqlval
  lo_manual_cost_override :: sqlval

record artemis_db =
  sessions :: "session_row list"
  events :: "event_row list"
  loadouts :: "loadout_row list"
  sessions_columns :: "(string \<times> string) list"
  events_columns :: "(string \<times> string) list"

text \<open>\<^verbatim>\<open>cursor.execute\<close> followed by the fetch, given whether the connection is open and
  the rows the statement selects: on a closed connection \<^verbatim>\<open>sqlite3\<close> raises
  ProgrammingError (cannot operate on a closed database).\<close>

definition cursor_execute :: "bool \<Rightarrow> 'a \<Rightarrow> py_exn + 'a" where
  "cursor_execute conn_open rows = (if conn_open then Inr rows else Inl ProgrammingError)"

text \<open>A \<^verbatim>\<open>for\<close> loop whose body may raise: it stops at the first exception.\<close>

fun map_exn :: "('a \<Rightarrow> py_exn + 'b) \<Rightarrow> 'a list \<Rightarrow> py_exn + 'b list" where
  "map_exn f [] = Inr []"
| "map_exn f (x # xs) =
     bind_exn (f x) (\<lambda>y. bind_exn (map_exn f xs) (\<lambda>ys. Inr (y # ys)))"

text \<open>\<^verbatim>\<open>SELECT ... FROM sessions ORDER BY start_time DESC LIMIT n\<close>.\<close>

definition recent_sessions :: "nat \<Rightarrow> session_row list \<Rightarrow> session_row list" where
  "recent_sessions n rows = take n (sort_key (\<lambda>s. - ses_start_time s) rows)"

text \<open>The format \<^verbatim>\<open>:.2f\<close> accepts a number (a bool is one; an int must convert to a
  float) and raises on anything else. The model keeps the number that is printed with two
  decimals.\<close>

fun format_2f :: "json \<Rightarrow> py_exn + real" where
  "format_2f (JInt n) =
     (if \<bar>n\<bar> < 2 ^ 1024 - 2 ^ 970 then Inr (of_int n) else Inl OverflowError)"
| "format_2f (JFloat x) = Inr x"
| "format_2f (JBool b) = Inr (if b then 1 else 0)"
| "format_2f JNull = Inl TypeError"
| "format_2f (JStr s) = Inl ValueError"
| "format_2f (JArr xs) = Inl TypeError"
| "format_2f (JObj items) = Inl TypeError"

record stats_report =
  st_kills :: json
  st_loot :: real
  st_ammo :: real
  st_profit :: real

text \<open>
  \<^verbatim>\<open>if stats_json: stats = json.loads(stats_json); ...  else: print('No stats in database!')\<close>.
  \<open>loads\<close> stands for \<^verbatim>\<open>json.loads\<close> (\<open>None\<close>: the text is not JSON). The result \<open>None\<close> is
  the branch that prints the warning and no figures.
\<close>

definition read_stats ::
  "(string \<Rightarrow> json option) \<Rightarrow> string option \<Rightarrow> py_exn + stats_report option" where
  "read_stats loads stats_json =
     (case stats_json of
        None \<Rightarrow> Inr None
      | Some txt \<Rightarrow>
          if txt = [] then Inr None
          else (case loads txt of
                  None \<Rightarrow> Inl JSONDecodeError
                | Some stats \<Rightarrow>
                    bind_exn (py_get stats ''totalKills'' (JInt 0)) (\<lambda>kills.
                    bind_exn (py_get stats ''totalLootTTValue'' (JInt 0)) (\<lambda>loot.
                    bind_exn (format_2f loot) (\<lambda>loot_value.
                    bind_exn (py_get stats ''totalAmmoCost'' (JInt 0)) (\<lambda>ammo.
                    bind_exn (format_2f ammo) (\<lambda>ammo_cost.
                    bind_exn (py_get stats ''profit'' (JInt 0)) (\<lambda>profit.
                    bind_exn (format_2f profit) (\<lambda>profit_value.
                      Inr (Some \<lparr> st_kills = kills, st_loot = loot_value,
                                   st_ammo = ammo_cost, st_profit = profit_value \<rparr>))))))))))"

text \<open>\<^verbatim>\<open>SELECT type, COUNT(*) FROM events WHERE session_id = ? GROUP BY type\<close>: one row for
  each type among the session's events, in the order of the types; then
  \<^verbatim>\<open>ORDER BY COUNT(*) DESC\<close>.\<close>

definition event_counts :: "string \<Rightarrow> event_row list \<Rightarrow> (string \<times> nat) list" where
  "event_counts sid evs =
     (let types = map ev_type (filter (\<lambda>e. ev_session_id e = sid) evs)
      in map (\<lambda>t. (t, count_list types t)) (sort (remdups types)))"

definition event_breakdown :: "string \<Rightarrow> event_row list \<Rightarrow> (string \<times> nat) list" where
  "event_breakdown sid evs = sort_key (\<lambda>tc. - int (snd tc)) (event_counts sid evs)"

text \<open>The loop over the breakdown: \<^verbatim>\<open>total_events += count\<close> and, for the type
  \<^verbatim>\<open>GPS_UPDATE\<close>, \<^verbatim>\<open>gps_count = count\<close>.\<close>

fun tally :: "(string \<times> nat) list \<Rightarrow> nat \<times> nat \<Rightarrow> nat \<times> nat" where
  "tally [] acc = acc"
| "tally ((etype, count) # rest) (total_events, gps_count) =
     tally rest (total_events + count, if etype = ''GPS_UPDATE'' then count else gps_count)"

text \<open>The three sample GPS events: each payload is decoded, then
  \<^verbatim>\<open>payload.get('location', {})\<close>, \<^verbatim>\<open>loc.get("lon", 0)\<close> and \<^verbatim>\<open>loc.get("lat", 0)\<close>.\<close>

definition gps_payloads :: "string \<Rightarrow> event_row list \<Rightarrow> string list" where
  "gps_payloads sid evs =
     take 3 (map ev_payload
       (filter (\<lambda>e. ev_session_id e = sid \<and> ev_type e = ''GPS_UPDATE'') evs))"

definition gps_sample :: "(string \<Rightarrow> json option) \<Rightarrow> string \<Rightarrow> py_exn + json \<times> json" where
  "gps_sample loads row =
     (case loads row of
        None \<Rightarrow> Inl JSONDecodeError
      | Some payload \<Rightarrow>
          bind_exn (py_get payload ''location'' (JObj [])) (\<lambda>loc.
          bind_exn (py_get loc ''lon'' (JInt 0)) (\<lambda>lon.
          bind_exn (py_get loc ''lat'' (JInt 0)) (\<lambda>lat. Inr (lon, lat)))))"

record summary =
  sum_session :: session_row
  sum_stats :: "stats_report option"
  sum_breakdown :: "(string \<times> nat) list"
  sum_total_events :: nat
  sum_gps_events :: nat
  sum_gps_samples :: "(json \<times> json) list"

text \<open>
  Lines 13 to 78: the most recent session, its stats, its events by type and the GPS
  samples. \<open>Inr None\<close> is the branch \<^verbatim>\<open>if not session\<close>, which prints that there are no
  sessions, closes the connection and leaves through \<^verbatim>\<open>exit()\<close>.
\<close>

definition summarize ::
  "bool \<Rightarrow> (string \<Rightarrow> json option) \<Rightarrow> artemis_db \<Rightarrow> py_exn + summary option" where
  "summarize conn loads db =
     bind_exn (cursor_execute conn (recent_sessions 1 (sessions db))) (\<lambda>found.
       case found of
         [] \<Rightarrow> Inr None
       | session # others \<Rightarrow>
           bind_exn (read_stats loads (ses_stats session)) (\<lambda>stats.
           bind_exn (cursor_execute conn (event_breakdown (ses_id session) (events db)))
             (\<lambda>breakdown.
           bind_exn
             (if 0 < snd (tally breakdown (0, 0))
              then bind_exn (cursor_execute conn (gps_payloads (ses_id session) (events db)))
                     (map_exn (gps_sample loads))
              else Inr [])
             (\<lambda>samples.
               Inr (Some \<lparr> sum_session = session, sum_stats = stats,
                            sum_breakdown = breakdown,
                            sum_total_events = fst (tally breakdown (0, 0)),
                            sum_gps_events = snd (tally breakdown (0, 0)),
                            sum_gps_samples = samples \<rparr>)))))"

text \<open>Lines 110 to 146, for one of the three most recent sessions: the number of its
  events, its events by type, and the value of its first loot event if it has one.\<close>

record session_listing =
  sl_session :: session_row
  sl_events :: nat
  sl_breakdown :: "(string \<times> nat) list"
  sl_loot :: "json option"

definition list_session ::
  "bool \<Rightarrow> (string \<Rightarrow> json option) \<Rightarrow> artemis_db \<Rightarrow> session_row
     \<Rightarrow> py_exn + session_listing" where
  "list_session conn loads db session =
     bind_exn (cursor_execute conn
                 (length (filter (\<lambda>e. ev_session_id e = ses_id session) (events db))))
       (\<lambda>event_count.
     bind_exn (cursor_execute conn (event_counts (ses_id session) (events db)))
       (\<lambda>breakdown.
     bind_exn (cursor_execute conn
                 (take 1 (map ev_payload
                    (filter (\<lambda>e. ev_session_id e = ses_id session
                                 \<and> ev_type e = ''LOOT_RECEIVED'') (events db)))))
       (\<lambda>loot.
     bind_exn
       (case loot of
          [] \<Rightarrow> Inr None
        | row # others \<Rightarrow>
            (case loads row of
               None \<Rightarrow> Inl JSONDecodeError
             | Some payload \<Rightarrow>
                 bind_exn (py_get payload ''totalTTValue'' (JInt 0)) (\<lambda>v. Inr (Some v))))
       (\<lambda>sample.
         Inr \<lparr> sl_session = session, sl_events = event_count, sl_breakdown = breakdown,
               sl_loot = sample \<rparr>))))"

text \<open>Lines 148 to 165: the first loadout and, \<^verbatim>\<open>if costs_json\<close>, the two figures
  \<^verbatim>\<open>costs.get("totalPerShot", 0)\<close> and \<^verbatim>\<open>costs.get("manualCostOverride")\<close>.\<close>

record loadout_report =
  lr_loadout :: loadout_row
  lr_costs :: "(json \<times> json) option"

definition read_loadout ::
  "bool \<Rightarrow> (string \<Rightarrow> json option) \<Rightarrow> artemis_db \<Rightarrow> py_exn + loadout_report option" where
  "read_loadout conn loads db =
     bind_exn (cursor_execute conn (take 1 (loadouts db))) (\<lambda>found.
       case found of
         [] \<Rightarrow> Inr None
       | loadout # others \<Rightarrow>
           (case lo_costs loadout of
              None \<Rightarrow> Inr (Some \<lparr> lr_loadout = loadout, lr_costs = None \<rparr>)
            | Some txt \<Rightarrow>
                if txt = [] then Inr (Some \<lparr> lr_loadout = loadout, lr_costs = None \<rparr>)
                else (case loads txt of
                        None \<Rightarrow> Inl JSONDecodeError
                      | Some costs \<Rightarrow>
                          bind_exn (py_get costs ''totalPerShot'' (JInt 0)) (\<lambda>per_shot.
                          bind_exn (py_get costs ''manualCostOverride'' JNull) (\<lambda>override.
                            Inr (Some \<lparr> lr_loadout = loadout,
                                         lr_costs = Some (per_shot, override) \<rparr>))))))"

record trailing_report =
  tr_sessions_columns :: "(string \<times> string) list"
  tr_events_columns :: "(string \<times> string) list"
  tr_sessions :: "session_listing list"
  tr_loadout :: "loadout_report option"

text \<open>Lines 83 to 165: the two \<^verbatim>\<open>PRAGMA table_info\<close>, the three most recent sessions,
  the loadout.\<close>

definition trailing ::
  "bool \<Rightarrow> (string \<Rightarrow> json option) \<Rightarrow> artemis_db \<Rightarrow> py_exn + trailing_report" where
  "trailing conn loads db =
     bind_exn (cursor_execute conn (sessions_columns db)) (\<lambda>columns.
     bind_exn (cursor_execute conn (events_columns db)) (\<lambda>event_cols.
     bind_exn (cursor_execute conn (recent_sessions 3 (sessions db))) (\<lambda>recent.
     bind_exn (map_exn (list_session conn loads db) recent) (\<lambda>listed.
     bind_exn (read_loadout conn loads db) (\<lambda>loadout.
       Inr \<lparr> tr_sessions_columns = columns, tr_events_columns = event_cols,
             tr_sessions = listed, tr_loadout = loadout \<rparr>)))))"

datatype reader_outcome =
    Uncaught_early py_exn
  | No_sessions
  | Summary_then_uncaught summary py_exn
  | All_done summary trailing_report

text \<open>
  The script. \<^verbatim>\<open>sqlite3.connect\<close> opens the connection (taken to succeed on the
  application's database); the summary runs on it; line 80 is \<^verbatim>\<open>conn.close()\<close>, and every
  statement after it uses the cursor of that closed connection.
\<close>

definition read_session :: "(string \<Rightarrow> json option) \<Rightarrow> artemis_db \<Rightarrow> reader_outcome" where
  "read_session loads db =
     (case summarize True loads db of
        Inl e \<Rightarrow> Uncaught_early e
      | Inr None \<Rightarrow> No_sessions
      | Inr (Some s) \<Rightarrow>
          (case trailing False loads db of
             Inl e \<Rightarrow> Summary_then_uncaught s e
           | Inr t \<Rightarrow> All_done s t))"

section \<open>Comparing tables\<close>

text \<open>A row apart from its creation time, and a table as the map from id to such rows.\<close>

definition without_created_at :: "spawn_row \<Rightarrow> spawn_row" where
  "without_created_at r = r\<lparr>ns_created_at := SNull\<rparr>"


section \<open>Example feeds and tables\<close>

text \<open>The record of the specification's scenario, and a record that has a name only.\<close>

definition spawn_a :: json where
  "spawn_a =
     JObj [(''Id'', JInt 1), (''Name'', JStr ''A''),
           (''Planet'', JObj [(''Name'', JStr ''Calypso'')]),
           (''Properties'',
              JObj [(''Coordinates'',
                       JObj [(''Longitude'', JInt 100), (''Latitude'', JInt 100)])])]"

definition spawn_no_id :: json where
  "spawn_no_id = JObj [(''Name'', JStr ''B'')]"

text \<open>The values bound for these two records, and the row of the first one when it is
  written at time \<open>t\<close>.\<close>

definition args_a :: sql_args where
  "args_a =
     \<lparr> q_id = SInt 1, q_name = SText ''A'', q_planet = SText ''Calypso'', q_type = SNull,
       q_shape = SNull, q_center_lon = SInt 100, q_center_lat = SInt 100, q_density = SNull,
       q_is_shared = SInt 0, q_is_event = SInt 0, q_notes = SNull,
       q_data_json = SText ''{}'' \<rparr>"

definition args_no_id :: sql_args where
  "args_no_id =
     \<lparr> q_id = SNull, q_name = SText ''B'', q_planet = SText ''Unknown'', q_type = SNull,
       q_shape = SNull, q_center_lon = SNull, q_center_lat = SNull, q_density = SNull,
       q_is_shared = SInt 0, q_is_event = SInt 0, q_notes = SNull,
       q_data_json = SText ''{}'' \<rparr>"

definition row_a :: "int \<Rightarrow> spawn_row" where
  "row_a t =
     \<lparr> ns_id = 1, ns_name = ''A'', ns_planet = ''Calypso'', ns_type = SNull,
       ns_shape = SNull, ns_center_lon = SReal 100, ns_center_lat = SReal 100,
       ns_density = SNull, ns_is_shared = SInt 0, ns_is_event = SInt 0, ns_notes = SNull,
       ns_data_json = SText ''{}'', ns_created_at = SInt t \<rparr>"

text \<open>A row of \<^verbatim>\<open>nexus_spawns\<close> on Calypso with the given id and coordinates.\<close>

definition spot :: "int \<Rightarrow> real \<Rightarrow> real \<Rightarrow> spawn_row" where
  "spot k lon lat =
     \<lparr> ns_id = k, ns_name = ''Spot'', ns_planet = ''Calypso'', ns_type = SNull,
       ns_shape = SNull, ns_center_lon = SReal lon, ns_center_lat = SReal lat,
       ns_density = SNull, ns_is_shared = SInt 0, ns_is_event = SInt 0, ns_notes = SNull,
       ns_data_json = SText ''{}'', ns_created_at = SInt 0 \<rparr>"

text \<open>Two rows a quarter and an eighth of a unit east of the origin of the script's
  query, the farther one first in the table.\<close>

definition spot_far :: spawn_row where
  "spot_far = spot 1 (79085 + 1 / 4) 67537"

definition spot_near :: spawn_row where
  "spot_near = spot 2 (79085 + 1 / 8) 67537"



text \<open>A database of the application with one session that has no events, one loadout
  without a cost breakdown, and the given stats; and a \<^verbatim>\<open>json.loads\<close> that knows the
  empty object.\<close>

definition session_with :: "string option \<Rightarrow> session_row" where
  "session_with stats =
     \<lparr> ses_id = ''s1'', ses_name = ''Hunt'', ses_loadout_id = None, ses_duration = 60,
       ses_stats = stats, ses_start_time = 1000 \<rparr>"

definition db_with :: "string option \<Rightarrow> artemis_db" where
  "db_with stats =
     \<lparr> sessions = [session_with stats], events = [],
       loadouts = [\<lparr> lo_id = ''l1'', lo_name = ''Rifle'', lo_costs = None,
                    lo_use_manual_cost = SInt 0, lo_manual_cost_override = SNull \<rparr>],
       sessions_columns = [(''id'', ''TEXT'')], events_columns = [(''id'', ''TEXT'')] \<rparr>"

definition loads_empty_object :: "string \<Rightarrow> json option" where
  "loads_empty_object txt = (if txt = ''{}'' then Some (JObj []) else None)"

definition summary_with :: "string option \<Rightarrow> stats_report option \<Rightarrow> summary" where
  "summary_with stats report =
     \<lparr> sum_session = session_with stats, sum_stats = report, sum_breakdown = [],
       sum_total_events = 0, sum_gps_events = 0, sum_gps_samples = [] \<rparr>"

section \<open>Properties of the Synchronizer\<close>

lemmas import_defs =
  text_not_null_def try_insert_def prepare_def py_get_def bind_exn_def
  insert_or_replace_def new_rowid_def upsert_def engine_at_def

lemma bind_exn_Inr: "bind_exn m f = Inr y \<longleftrightarrow> (\<exists>x. m = Inr x \<and> f x = Inr y)"
  by (cases m) (simp_all add: bind_exn_def)

lemma py_get_Inr_object: "py_get x key d = Inr v \<Longrightarrow> \<exists>items. x = JObj items"
  by (cases x) (simp_all add: py_get_def)

lemma sync_loop_object:
  "sync_loop eng i (JObj items # rest) (rows, ins, skp) =
     (case try_insert eng (clock eng i) (JObj items) rows of
        Inr rows' \<Rightarrow> sync_loop eng (Suc i) rest (rows', ins + 1, skp)
      | Inl e \<Rightarrow> sync_loop eng (Suc i) rest (rows, ins, skp + 1))"
  by (simp add: py_get_def split: sum.splits)

lemma max_id_ge: "k \<in> set ks \<Longrightarrow> k \<le> max_id ks"
  by (induction ks rule: max_id.induct) auto

lemma new_rowid_fresh:
  assumes "new_rowid eng rows = Inr k"
  shows "k \<notin> ns_id ` set rows"
proof
  assume "k \<in> ns_id ` set rows"
  then have mem: "k \<in> set (map ns_id rows)" by simp
  then have le: "k \<le> max_id (map ns_id rows)" by (rule max_id_ge)
  from mem have ne: "map ns_id rows \<noteq> []" by auto
  show False
  proof (cases "max_id (map ns_id rows) < 2 ^ 63 - 1")
    case True
    with assms ne have "k = max_id (map ns_id rows) + 1"
      by (simp add: new_rowid_def Let_def)
    with le show False by simp
  next
    case False
    with assms ne mem show False
      by (simp add: new_rowid_def Let_def split: option.splits if_splits)
  qed
qed

lemma upsert_fresh:
  assumes "ns_id r \<notin> ns_id ` set rows"
  shows "upsert r rows = insort_key ns_id r rows"
proof -
  from assms have "\<forall>x\<in>set rows. ns_id x \<noteq> ns_id r" by (metis imageI)
  then have "filter (\<lambda>x. ns_id x \<noteq> ns_id r) rows = rows"
    by (rule filter_True)
  then show ?thesis by (simp add: upsert_def)
qed

lemma prepare_q_id:
  "prepare eng spawn = Inr q \<Longrightarrow> py_get spawn ''Id'' JNull = Inr v
     \<Longrightarrow> bind_param v = Inr (q_id q)"
  unfolding prepare_def bind_exn_Inr by auto

lemma text_not_null_ok: "v \<noteq> SNull \<Longrightarrow> \<exists>s. text_not_null eng v = Inr s"
  by (cases v) (simp_all add: text_not_null_def)

lemma insert_or_replace_Inr:
  assumes "insert_or_replace eng now q rows = Inr rows'"
  shows "\<exists>r. rowid_of eng (q_id q) rows = Inr (ns_id r) \<and> rows' = upsert r rows
           \<and> ns_created_at r = SInt now"
proof -
  from assms obtain k nm pl where k: "rowid_of eng (q_id q) rows = Inr k"
    and rows': "rows' = upsert
             \<lparr> ns_id = k, ns_name = nm, ns_planet = pl,
               ns_type = text_affinity eng (q_type q),
               ns_shape = text_affinity eng (q_shape q),
               ns_center_lon = real_affinity eng (q_center_lon q),
               ns_center_lat = real_affinity eng (q_center_lat q),
               ns_density = text_affinity eng (q_density q),
               ns_is_shared = q_is_shared q,
               ns_is_event = q_is_event q,
               ns_notes = text_affinity eng (q_notes q),
               ns_data_json = text_affinity eng (q_data_json q),
               ns_created_at = SInt now \<rparr> rows"
    unfolding insert_or_replace_def bind_exn_Inr by auto
  show ?thesis
    by (rule exI, intro conjI, rule_tac [2] rows') (simp_all add: k)
qed

lemma insert_or_replace_ok:
  assumes "rowid_of eng (q_id q) rows = Inr k"
    and "q_name q \<noteq> SNull" and "q_planet q \<noteq> SNull"
  shows "\<exists>r. insert_or_replace eng now q rows = Inr (upsert r rows) \<and> ns_id r = k
           \<and> ns_created_at r = SInt now"
proof -
  obtain nm where nm: "text_not_null eng (q_name q) = Inr nm"
    using assms(2) text_not_null_ok by blast
  obtain pl where pl: "text_not_null eng (q_planet q) = Inr pl"
    using assms(3) text_not_null_ok by blast
  show ?thesis
    unfolding insert_or_replace_def using assms(1) nm pl
    by (simp add: bind_exn_def) (rule exI, rule conjI, rule refl, simp)
qed

lemma filter_insort_key_fresh:
  "\<forall>x\<in>set xs. f x \<noteq> f r \<Longrightarrow> filter (\<lambda>x. f x = f r) (insort_key f r xs) = [r]"
  by (induction xs) auto

lemma filter_upsert_same: "filter (\<lambda>x. ns_id x = ns_id r) (upsert r rows) = [r]"
  unfolding upsert_def by (rule filter_insort_key_fresh) simp

text \<open>
  Claim C1, as the code has it. A record that is a JSON object without an \<open>Id\<close> (or whose
  \<open>Id\<close> is null) binds NULL to the primary key, and SQLite gives the row a fresh row id.
  The loop goes on with the next record in either case; the record counts as inserted when
  the statement succeeds and as skipped when it raises. When the other values bind, name
  and planet are not NULL and a row id \<open>k\<close> is available, the statement succeeds: the row
  is added under \<open>k\<close>, which no row of the table had.
\<close>

theorem record_without_id_is_inserted:
  assumes "py_get spawn ''Id'' JNull = Inr JNull"
  shows "sync_loop eng i (spawn # rest) (rows, ins, skp) =
           (case try_insert eng (clock eng i) spawn rows of
              Inr rows' \<Rightarrow> sync_loop eng (Suc i) rest (rows', ins + 1, skp)
            | Inl e \<Rightarrow> sync_loop eng (Suc i) rest (rows, ins, skp + 1))
       \<and> (\<forall>q k. prepare eng spawn = Inr q \<and> q_name q \<noteq> SNull \<and> q_planet q \<noteq> SNull
               \<and> new_rowid eng rows = Inr k
             \<longrightarrow> (\<exists>r. try_insert eng (clock eng i) spawn rows = Inr (insort_key ns_id r rows)
                     \<and> ns_id r = k \<and> k \<notin> ns_id ` set rows))"
proof (intro conjI allI impI)
  from assms obtain items where "spawn = JObj items" using py_get_Inr_object by blast
  then show "sync_loop eng i (spawn # rest) (rows, ins, skp) =
           (case try_insert eng (clock eng i) spawn rows of
              Inr rows' \<Rightarrow> sync_loop eng (Suc i) rest (rows', ins + 1, skp)
            | Inl e \<Rightarrow> sync_loop eng (Suc i) rest (rows, ins, skp + 1))"
    by (simp only: sync_loop_object)
next
  fix q k
  assume h: "prepare eng spawn = Inr q \<and> q_name q \<noteq> SNull \<and> q_planet q \<noteq> SNull
               \<and> new_rowid eng rows = Inr k"
  then have "bind_param JNull = Inr (q_id q)" using prepare_q_id assms by blast
  then have "q_id q = SNull" by simp
  then have "rowid_of eng (q_id q) rows = Inr k" using h by simp
  then obtain r where r: "insert_or_replace eng (clock eng i) q rows = Inr (upsert r rows)"
      "ns_id r = k"
    using insert_or_replace_ok h by blast
  have fresh: "k \<notin> ns_id ` set rows" using h new_rowid_fresh by blast
  then have "upsert r rows = insort_key ns_id r rows" using r(2) upsert_fresh by blast
  then show "\<exists>r. try_insert eng (clock eng i) spawn rows = Inr (insort_key ns_id r rows)
                     \<and> ns_id r = k \<and> k \<notin> ns_id ` set rows"
    using r h fresh by (auto simp: try_insert_def bind_exn_def)
qed

text \<open>Claim C1 as stated fails: after the record with id 1, the record without an id is
  stored under row id 2; two records are inserted and none is skipped.\<close>

theorem record_without_id_counterexample:
  "map_sum id (map_prod (map ns_id) id)
     (sync_loop (engine_at 100) 0 [spawn_a, spawn_no_id] ([], 0, 0)) = Inr ([1, 2], 2, 0)"
  by (simp add: spawn_a_def spawn_no_id_def import_defs)

text \<open>
  Claim C6. When the download raises, or what was received is not JSON, the script leaves
  through \<^verbatim>\<open>exit(1)\<close> and the database is what it was: the table is not even created.
\<close>

theorem fetch_failure_exits_before_connect:
  "run_import eng FetchFailed db = (Exit1, db) \<and> run_import eng NotJson db = (Exit1, db)"
  by (simp add: run_import_def)

text \<open>
  Claim C7 at a feed the code does not survive: the array \<^verbatim>\<open>[5, {...}]\<close>. The number 5
  has no \<^verbatim>\<open>get\<close>; the handler of the loop calls \<^verbatim>\<open>spawn.get("Id")\<close> again for its
  message, and that AttributeError is not caught. The script ends there: the second
  record is never read, nothing is committed, no counts are reported.
\<close>

theorem non_object_element_aborts_sync:
  "run_import (engine_at 100) (Document (JArr [JInt 5, spawn_a])) (Some []) =
     (Uncaught AttributeError, Some [])"
  by (simp add: run_import_def try_insert_def prepare_def py_get_def bind_exn_def)

text \<open>
  Claim C8, as the code has it. After an INSERT OR REPLACE that gives the id \<open>k\<close>, the
  table has exactly one row with that id and its \<open>created_at\<close> is the time of this
  statement, whether or not a row with id \<open>k\<close> was there before: the old row is deleted
  and the default is evaluated for the new one.
\<close>

theorem replace_refreshes_created_at:
  assumes "insert_or_replace eng now q rows = Inr rows'" and "q_id q = SInt k"
  shows "map ns_created_at (filter (\<lambda>r. ns_id r = k) rows') = [SInt now]"
proof -
  obtain r where r: "rowid_of eng (q_id q) rows = Inr (ns_id r)" "rows' = upsert r rows"
      "ns_created_at r = SInt now"
    using assms(1) insert_or_replace_Inr by blast
  then have k: "ns_id r = k" using assms(2) by simp
  have "filter (\<lambda>x. ns_id x = k) (upsert r rows) = [r]"
    using filter_upsert_same [of r rows] k by simp
  then show ?thesis using r by simp
qed

text \<open>Claim C8 as stated fails: the record imported at time 100 and again at time 200
  ends with \<open>created_at\<close> 200.\<close>

theorem created_at_counterexample:
  "map_sum id (map ns_created_at)
     (bind_exn (try_insert (engine_at 100) 100 spawn_a [])
        (try_insert (engine_at 200) 200 spawn_a)) = Inr [SInt 200]"
  by (simp add: spawn_a_def import_defs)

subsection \<open>Running the Synchronizer twice\<close>













lemma without_created_at_update [simp]:
  "without_created_at (r\<lparr>ns_created_at := t\<rparr>) = without_created_at r"
  by (simp add: without_created_at_def)








section \<open>Properties of the proximity queries and of the HP matcher\<close>

lemma sql_round_near: "\<bar>sql_round x - x\<bar> \<le> 1 / 2"
proof (cases "0 \<le> x")
  case True
  then have "sql_round x = real_of_int \<lfloor>x + 1 / 2\<rfloor>" by (simp add: sql_round_def)
  then show ?thesis by linarith
next
  case False
  then have "sql_round x = - real_of_int \<lfloor>- x + 1 / 2\<rfloor>" by (simp add: sql_round_def)
  then show ?thesis by linarith
qed

lemma sql_round_int: "sql_round x \<in> \<int>"
  unfolding sql_round_def by simp

lemma sorted_order_by_distance_limit:
  "sorted (map snd (order_by_distance_limit eng lon0 lat0 n rows))"
proof -
  have "sorted (map snd (sort_key snd (map (\<lambda>r. (r, distance eng lon0 lat0 r)) rows)))"
    by (rule sorted_sort_key)
  then have "sorted (take n (map snd (sort_key snd (map (\<lambda>r. (r, distance eng lon0 lat0 r)) rows))))"
    by (rule sorted_wrt_take)
  then show ?thesis by (simp add: order_by_distance_limit_def take_map)
qed

lemma set_order_by_distance_limit:
  assumes "(r, d) \<in> set (order_by_distance_limit eng lon0 lat0 n rows)"
  shows "r \<in> set rows \<and> d = distance eng lon0 lat0 r"
proof -
  from assms have "(r, d) \<in> set (sort_key snd (map (\<lambda>r. (r, distance eng lon0 lat0 r)) rows))"
    unfolding order_by_distance_limit_def by (rule in_set_takeD)
  then show ?thesis by auto
qed


lemma distance_rounded:
  assumes "sql_num eng (ns_center_lon r) = Some lon" and "sql_num eng (ns_center_lat r) = Some lat"
  shows "distance eng lon0 lat0 r = Some (sql_round (euclid lon0 lat0 lon lat))"
  using assms by (simp add: distance_def)




text \<open>
  Claim C3, as the code has it. In both scripts the distance returned with a row is the
  \<open>distance\<close> column, that is the Euclidean distance rounded to a whole number (at most
  one half away from it), and the rows come in non-decreasing order of that rounded value:
  the ORDER BY names the rounded column.
\<close>

theorem proximity_distance_is_rounded:
  assumes "res = nearby_spawns eng rows \<or> res = closest_foul eng rows"
  shows "sorted (map snd res)
    \<and> (\<forall>(r, d) \<in> set res.
          d = distance eng 79085 67537 r
          \<and> (\<forall>lon lat. sql_num eng (ns_center_lon r) = Some lon
                       \<and> sql_num eng (ns_center_lat r) = Some lat
               \<longrightarrow> d = Some (sql_round (euclid 79085 67537 lon lat))
                   \<and> sql_round (euclid 79085 67537 lon lat) \<in> \<int>
                   \<and> \<bar>sql_round (euclid 79085 67537 lon lat) - euclid 79085 67537 lon lat\<bar> \<le> 1 / 2))"
proof -
  from assms obtain n rows' where res: "res = order_by_distance_limit eng 79085 67537 n rows'"
    unfolding nearby_spawns_def nearest_def closest_foul_def by blast
  have "sorted (map snd res)" unfolding res by (rule sorted_order_by_distance_limit)
  moreover have "\<forall>(r, d) \<in> set res.
          d = distance eng 79085 67537 r
          \<and> (\<forall>lon lat. sql_num eng (ns_center_lon r) = Some lon
                       \<and> sql_num eng (ns_center_lat r) = Some lat
               \<longrightarrow> d = Some (sql_round (euclid 79085 67537 lon lat))
                   \<and> sql_round (euclid 79085 67537 lon lat) \<in> \<int>
                   \<and> \<bar>sql_round (euclid 79085 67537 lon lat) - euclid 79085 67537 lon lat\<bar> \<le> 1 / 2)"
  proof (clarify, intro conjI allI impI)
    fix r d
    assume "(r, d) \<in> set res"
    then show d: "d = distance eng 79085 67537 r"
      unfolding res using set_order_by_distance_limit by blast
    fix lon lat
    assume "sql_num eng (ns_center_lon r) = Some lon \<and> sql_num eng (ns_center_lat r) = Some lat"
    then show "d = Some (sql_round (euclid 79085 67537 lon lat))"
      using d by (simp add: distance_rounded)
    show "sql_round (euclid 79085 67537 lon lat) \<in> \<int>" by (rule sql_round_int)
    show "\<bar>sql_round (euclid 79085 67537 lon lat) - euclid 79085 67537 lon lat\<bar> \<le> 1 / 2"
      by (rule sql_round_near)
  qed
  ultimately show ?thesis by blast
qed






section \<open>The theorems above at concrete inputs\<close>


lemma prepare_spawn_no_id: "prepare (engine_at t) spawn_no_id = Inr args_no_id"
  by (simp add: spawn_no_id_def args_no_id_def prepare_def py_get_def bind_exn_def
      engine_at_def)

theorem record_without_id_is_inserted_witness:
  "py_get spawn_no_id ''Id'' JNull = Inr JNull
   \<and> prepare (engine_at 100) spawn_no_id = Inr args_no_id
   \<and> q_name args_no_id \<noteq> SNull \<and> q_planet args_no_id \<noteq> SNull
   \<and> new_rowid (engine_at 100) [row_a 100] = Inr 2
   \<and> (\<exists>r. try_insert (engine_at 100) 100 spawn_no_id [row_a 100]
             = Inr (insort_key ns_id r [row_a 100])
          \<and> ns_id r = 2 \<and> 2 \<notin> ns_id ` set [row_a 100])"
proof -
  have 1: "py_get spawn_no_id ''Id'' JNull = Inr JNull"
    by (simp add: spawn_no_id_def py_get_def)
  have 2: "q_name args_no_id \<noteq> SNull \<and> q_planet args_no_id \<noteq> SNull"
    by (simp add: args_no_id_def)
  have 3: "new_rowid (engine_at 100) [row_a 100] = Inr 2"
    by (simp add: new_rowid_def row_a_def)
  have c: "clock (engine_at 100) 0 = 100" by (simp add: engine_at_def)
  from record_without_id_is_inserted [OF 1, of "engine_at 100" 0 "[]" "[row_a 100]" 0 0]
  have "\<exists>r. try_insert (engine_at 100) (clock (engine_at 100) 0) spawn_no_id [row_a 100]
               = Inr (insort_key ns_id r [row_a 100])
          \<and> ns_id r = 2 \<and> 2 \<notin> ns_id ` set [row_a 100]"
    using prepare_spawn_no_id 2 3 by blast
  then show ?thesis using 1 2 3 prepare_spawn_no_id c by simp
qed

theorem replace_refreshes_created_at_witness:
  "insert_or_replace (engine_at 200) 200 args_a [row_a 100] = Inr [row_a 200]
   \<and> q_id args_a = SInt 1
   \<and> map ns_created_at (filter (\<lambda>r. ns_id r = 1) [row_a 200]) = [SInt 200]"
  using replace_refreshes_created_at
          [of "engine_at 200" 200 args_a "[row_a 100]" "[row_a 200]" 1]
  by (simp add: args_a_def row_a_def insert_or_replace_def text_not_null_def bind_exn_def
      upsert_def engine_at_def)

lemma euclid_same_lat: "euclid lon0 lat0 lon lat0 = \<bar>lon - lon0\<bar>"
  by (simp add: euclid_def)

lemma distance_spot_east:
  "distance eng lon0 lat0 (spot k (lon0 + x) lat0) = Some (sql_round \<bar>x\<bar>)"
  by (simp add: distance_def spot_def euclid_same_lat)

lemma spot_facts:
  "distance eng 79085 67537 spot_far = Some 0"
  "distance eng 79085 67537 spot_near = Some 0"
  "ns_planet spot_far = ''Calypso''" "ns_planet spot_near = ''Calypso''"
  "ns_center_lon spot_far \<noteq> SNull" "ns_center_lat spot_far \<noteq> SNull"
  "ns_center_lon spot_near \<noteq> SNull" "ns_center_lat spot_near \<noteq> SNull"
  "ns_id spot_far = 1" "ns_id spot_near = 2"
  unfolding spot_far_def spot_near_def
  by (simp_all only: distance_spot_east) (simp_all add: sql_round_def spot_def)

lemma spot_coords:
  "sql_num eng (ns_center_lon spot_far) = Some (79085 + 1 / 4)"
  "sql_num eng (ns_center_lat spot_far) = Some 67537"
  "sql_num eng (ns_center_lon spot_near) = Some (79085 + 1 / 8)"
  "sql_num eng (ns_center_lat spot_near) = Some 67537"
  by (simp_all add: spot_far_def spot_near_def spot_def)

lemma euclid_spots:
  "euclid 79085 67537 (79085 + 1 / 4) 67537 = 1 / 4"
  "euclid 79085 67537 (79085 + 1 / 8) 67537 = 1 / 8"
  using euclid_same_lat [of 79085 67537 "79085 + 1 / 4"]
    euclid_same_lat [of 79085 67537 "79085 + 1 / 8"] by simp_all

lemma nearby_spots: "nearby_spawns eng [spot_far, spot_near] = [(spot_far, Some 0), (spot_near, Some 0)]"
  unfolding nearby_spawns_def nearest_def order_by_distance_limit_def
  by (simp add: spot_facts)

text \<open>Claim C3 as stated fails. The two rows are 1/4 and 1/8 away from the origin;
  the query returns the distance 0 for both, and returns the farther row first.\<close>

theorem proximity_order_counterexample:
  "map (map_prod ns_id id) (nearby_spawns (engine_at 0) [spot_far, spot_near]) = [(1, Some 0), (2, Some 0)]
   \<and> sql_num (engine_at 0) (ns_center_lon spot_far) = Some (79085 + 1 / 4)
   \<and> sql_num (engine_at 0) (ns_center_lat spot_far) = Some 67537
   \<and> sql_num (engine_at 0) (ns_center_lon spot_near) = Some (79085 + 1 / 8)
   \<and> sql_num (engine_at 0) (ns_center_lat spot_near) = Some 67537
   \<and> euclid 79085 67537 (79085 + 1 / 4) 67537 = 1 / 4
   \<and> euclid 79085 67537 (79085 + 1 / 8) 67537 = 1 / 8"
  by (simp only: nearby_spots spot_coords euclid_spots) (simp add: spot_facts)

theorem proximity_distance_is_rounded_witness:
  "nearby_spawns (engine_at 0) [spot_far, spot_near] = [(spot_far, Some 0), (spot_near, Some 0)]
   \<and> sorted (map snd (nearby_spawns (engine_at 0) [spot_far, spot_near]))
   \<and> sql_num (engine_at 0) (ns_center_lon spot_far) = Some (79085 + 1 / 4)
   \<and> sql_num (engine_at 0) (ns_center_lat spot_far) = Some 67537
   \<and> Some 0 = Some (sql_round (euclid 79085 67537 (79085 + 1 / 4) 67537))
   \<and> \<bar>sql_round (euclid 79085 67537 (79085 + 1 / 4) 67537)
        - euclid 79085 67537 (79085 + 1 / 4) 67537\<bar> \<le> 1 / 2"
proof -
  have mem: "(spot_far, Some 0) \<in> set (nearby_spawns (engine_at 0) [spot_far, spot_near])"
    by (simp only: nearby_spots) simp
  note all = proximity_distance_is_rounded
         [OF disjI1 [OF refl], of "engine_at 0" "[spot_far, spot_near]"]
  have "\<forall>lon lat. sql_num (engine_at 0) (ns_center_lon spot_far) = Some lon
                 \<and> sql_num (engine_at 0) (ns_center_lat spot_far) = Some lat
          \<longrightarrow> Some 0 = Some (sql_round (euclid 79085 67537 lon lat))
              \<and> sql_round (euclid 79085 67537 lon lat) \<in> \<int>
              \<and> \<bar>sql_round (euclid 79085 67537 lon lat) - euclid 79085 67537 lon lat\<bar> \<le> 1 / 2"
    using bspec [OF conjunct2 [OF all] mem, unfolded prod.case] by blast
  then have "Some 0 = Some (sql_round (euclid 79085 67537 (79085 + 1 / 4) 67537))
        \<and> \<bar>sql_round (euclid 79085 67537 (79085 + 1 / 4) 67537)
             - euclid 79085 67537 (79085 + 1 / 4) 67537\<bar> \<le> 1 / 2"
    using spot_coords(1,2) [of "engine_at 0"] by blast
  then show ?thesis
    using conjunct1 [OF all] spot_coords(1,2) [of "engine_at 0"] nearby_spots [of "engine_at 0"]
    by blast
qed












section \<open>Properties of the session reader\<close>

lemma trailing_closed: "trailing False loads db = Inl ProgrammingError"
  by (simp add: trailing_def cursor_execute_def bind_exn_def)

lemma list_session_closed: "list_session False loads db session = Inl ProgrammingError"
  by (simp add: list_session_def cursor_execute_def bind_exn_def)

lemma read_loadout_closed: "read_loadout False loads db = Inl ProgrammingError"
  by (simp add: read_loadout_def cursor_execute_def bind_exn_def)

text \<open>
  Claim C10. Every statement after line 80 runs on the closed connection and raises
  ProgrammingError: the schema inspection that opens the trailing part, the listing of a
  session, the read of the loadout. So a run whose summary completes ends with that
  exception, raised by the first \<^verbatim>\<open>PRAGMA\<close>, and no run reaches the end of the script.
\<close>

theorem closed_connection_always_raises:
  "trailing False loads db = Inl ProgrammingError
   \<and> list_session False loads db session = Inl ProgrammingError
   \<and> read_loadout False loads db = Inl ProgrammingError
   \<and> (\<forall>s. summarize True loads db = Inr (Some s)
          \<longrightarrow> read_session loads db = Summary_then_uncaught s ProgrammingError)
   \<and> (\<forall>s t. read_session loads db \<noteq> All_done s t)"
  by (auto simp: trailing_closed list_session_closed read_loadout_closed read_session_def
      split: sum.splits option.splits)

lemma event_counts_none:
  assumes "\<forall>e\<in>set evs. ev_session_id e \<noteq> sid"
  shows "event_counts sid evs = []"
proof -
  from assms have "filter (\<lambda>e. ev_session_id e = sid) evs = []"
    by (simp add: filter_empty_conv)
  then show ?thesis by (simp add: event_counts_def)
qed

lemma summarize_no_events:
  assumes "recent_sessions 1 (sessions db) = [session]"
    and "\<forall>e\<in>set (events db). ev_session_id e \<noteq> ses_id session"
  shows "summarize True loads db =
           bind_exn (read_stats loads (ses_stats session)) (\<lambda>stats.
             Inr (Some \<lparr> sum_session = session, sum_stats = stats, sum_breakdown = [],
                          sum_total_events = 0, sum_gps_events = 0, sum_gps_samples = [] \<rparr>))"
proof -
  have r: "recent_sessions (Suc 0) (sessions db) = [session]" using assms(1) by simp
  have b: "event_breakdown (ses_id session) (events db) = []"
    by (simp add: event_breakdown_def event_counts_none [OF assms(2)])
  show ?thesis
    by (simp add: summarize_def r b cursor_execute_def bind_exn_def split: sum.splits)
qed


lemma recent_db_with: "recent_sessions 1 (sessions (db_with stats)) = [session_with stats]"
  by (simp add: recent_sessions_def db_with_def)

lemma events_db_with:
  "\<forall>e\<in>set (events (db_with stats)). ev_session_id e \<noteq> ses_id (session_with stats)"
  by (simp add: db_with_def)

lemma summarize_db_none: "summarize True loads (db_with None) = Inr (Some (summary_with None None))"
  unfolding summarize_no_events [OF recent_db_with events_db_with]
  by (simp add: read_stats_def bind_exn_def session_with_def summary_with_def)


theorem closed_connection_always_raises_witness:
  "summarize True loads_empty_object (db_with None) = Inr (Some (summary_with None None))
   \<and> read_session loads_empty_object (db_with None)
       = Summary_then_uncaught (summary_with None None) ProgrammingError
   \<and> trailing False loads_empty_object (db_with None) = Inl ProgrammingError"
  using closed_connection_always_raises [of loads_empty_object "db_with None"] summarize_db_none [of loads_empty_object]
  by simp


end
